theory Spec2Isabelle
  imports Main
begin

section \<open>JSON values as JavaScript sees them\<close>

text \<open>
  The values that \<^verbatim>\<open>JSON.parse\<close> produces. Numbers are kept as integers: the code only
  tests them for truthiness and uses them as property keys. An object is the list of its own
  properties; \<open>undefined\<close> is \<open>None\<close> of \<open>json option\<close>.
\<close>

datatype json =
    JNull
  | JBool bool
  | JNum int
  | JStr string
  | JArr "json list"
  | JObj "(string \<times> json) list"

type_synonym obj = "(string \<times> json) list"

text \<open>JavaScript truthiness: \<open>null\<close>, \<open>false\<close>, \<open>0\<close> and the empty string are falsy.\<close>

fun truthy :: "json \<Rightarrow> bool" where
  "truthy JNull = False"
| "truthy (JBool b) = b"
| "truthy (JNum n) = (n \<noteq> 0)"
| "truthy (JStr s) = (s \<noteq> [])"
| "truthy (JArr xs) = True"
| "truthy (JObj kvs) = True"

definition truthy_opt :: "json option \<Rightarrow> bool" where
  "truthy_opt v = (case v of None \<Rightarrow> False | Some x \<Rightarrow> truthy x)"

text \<open>
  Reading one of the properties \<open>message\<close>, \<open>method\<close>, \<open>id\<close>, \<open>result\<close>, \<open>error\<close>:
  an object gives its own property, every other value gives \<open>undefined\<close>.
\<close>

definition js_get :: "json \<Rightarrow> string \<Rightarrow> json option" where
  "js_get v k = (case v of JObj kvs \<Rightarrow> map_of kvs k | _ \<Rightarrow> None)"

text \<open>\<^verbatim>\<open>Object.prototype.hasOwnProperty.call(v, k)\<close>\<close>

definition hasOwnProperty :: "json \<Rightarrow> string \<Rightarrow> bool" where
  "hasOwnProperty v k = (case v of JObj kvs \<Rightarrow> k \<in> fst ` set kvs | _ \<Rightarrow> False)"

text \<open>\<^verbatim>\<open>String.prototype.toLowerCase\<close>, on ASCII letters.\<close>

definition toLowerCase :: "string \<Rightarrow> string" where
  "toLowerCase s =
     map (\<lambda>c. case map_of (zip ''ABCDEFGHIJKLMNOPQRSTUVWXYZ'' ''abcdefghijklmnopqrstuvwxyz'') c of
                None \<Rightarrow> c
              | Some l \<Rightarrow> l) s"

section \<open>Promises, callbacks and what the messenger does to the outside\<close>

datatype ('v, 'e) pstate = Pending | Fulfilled 'v | Rejected 'e

text \<open>A promise settles once: settling a settled promise changes nothing.\<close>

definition settle :: "('v, 'e) pstate \<Rightarrow> ('v, 'e) pstate \<Rightarrow> ('v, 'e) pstate" where
  "settle new old = (if old = Pending then new else old)"

text \<open>
  The functions handed to \<open>call\<close> as \<open>resolve\<close> and \<open>reject\<close>: a function of the caller's
  (\<open>Fn n\<close>, opaque: it is only recorded that it ran, it does not throw and does not call back
  into the messenger), or the two functions of \<^verbatim>\<open>new Promise((res, rej) => ...)\<close>.
\<close>

datatype callback = Fn nat | PromiseResolve nat | PromiseReject nat

text \<open>
  What the messenger invokes, in order: a resolver or rejector with its argument, or a handler
  of \<open>RPC_METHOD_ACTIONS\<close> with the parsed message.
\<close>

datatype effect = Invoked callback json | Handled nat json

text \<open>The object built by \<open>makeRPC\<close>.\<close>

record rpc =
  jsonrpc :: string
  rpc_method :: string
  rpc_params :: json
  rpc_id :: json

text \<open>
  What \<^verbatim>\<open>socket.send\<close> is given: the signature of a challenge, or the envelope of \<open>call\<close>
  (before \<^verbatim>\<open>JSON.stringify\<close>).
\<close>

datatype frame =
    Signature string
  | Envelope (env_sender: string) (env_receiver: string) (env_message: rpc) (env_id: string)

text \<open>The closure that \<open>call\<close> gives to \<^verbatim>\<open>setTimeout\<close>, and when it is due.\<close>

record timer =
  due :: nat
  t_reject :: "callback option"
  t_id :: string

section \<open>The messenger and its environment\<close>

text \<open>
  The fields of the class \<open>Messenger\<close>, followed by the part of the JavaScript environment the
  class works on: the socket (the frames sent on it), the promise returned by \<open>connect\<close>, the
  clock and the armed timers, the promises created by the RPC helpers, the values \<open>uuid()\<close>
  returns, the built-in \<^verbatim>\<open>JSON.parse\<close> (\<open>None\<close>: it throws) and the built-in conversion of a
  value that is not a string to a string, and the trace of invoked callbacks.
\<close>

record world =
  address :: string
  messageSigner :: "string \<Rightarrow> string option"
  isAuthenticated :: bool
  RESOLVERS :: "string \<rightharpoonup> callback"
  REJECTORS :: "string \<rightharpoonup> callback"
  TIMEOUTS :: "string \<rightharpoonup> nat"
  RPC_METHOD_ACTIONS :: "string \<rightharpoonup> nat"
  sent :: "frame list"
  connect_promise :: "(string, string) pstate"
  now :: nat
  timers :: "nat \<rightharpoonup> timer"
  next_timer :: nat
  promises :: "nat \<Rightarrow> (json, json) pstate"
  next_promise :: nat
  uuid_values :: "nat \<Rightarrow> string"
  uuid_count :: nat
  JSON_parse :: "string \<Rightarrow> json option"
  ToString :: "json \<Rightarrow> string"
  trace :: "effect list"

definition TIMEOUT :: nat where
  "TIMEOUT = 12000"

text \<open>The conversion of a value to a string, as a property key or in a template.\<close>

definition js_string :: "world \<Rightarrow> json \<Rightarrow> string" where
  "js_string w v = (case v of JStr s \<Rightarrow> s | _ \<Rightarrow> ToString w v)"

definition prop_key :: "world \<Rightarrow> json option \<Rightarrow> string" where
  "prop_key w v = (case v of None \<Rightarrow> ''undefined'' | Some x \<Rightarrow> js_string w x)"

definition uuid :: "world \<Rightarrow> string \<times> world" where
  "uuid w = (uuid_values w (uuid_count w), w\<lparr>uuid_count := Suc (uuid_count w)\<rparr>)"

text \<open>
  Invoking a callback: recorded in the trace; the two functions of a promise settle it.
\<close>

definition invoke :: "callback \<Rightarrow> json \<Rightarrow> world \<Rightarrow> world" where
  "invoke f v w =
     (let w' = w\<lparr>trace := trace w @ [Invoked f v]\<rparr> in
      case f of
        Fn n \<Rightarrow> w'
      | PromiseResolve p \<Rightarrow>
          w'\<lparr>promises := (promises w')(p := settle (Fulfilled v) (promises w' p))\<rparr>
      | PromiseReject p \<Rightarrow>
          w'\<lparr>promises := (promises w')(p := settle (Rejected v) (promises w' p))\<rparr>)"

text \<open>\<^verbatim>\<open>clearTimeout(h)\<close>; \<open>clearTimeout(undefined)\<close> does nothing.\<close>

definition clearTimeout :: "nat option \<Rightarrow> world \<Rightarrow> world" where
  "clearTimeout h w = (case h of None \<Rightarrow> w | Some n \<Rightarrow> w\<lparr>timers := (timers w)(n := None)\<rparr>)"

subsection \<open>The constructor and \<open>connect\<close>\<close>

text \<open>
  The constructor: not authenticated, the three tables empty. The first three arguments are the
  configuration (\<open>address\<close>, \<open>messageSigner\<close>, \<open>rpcActions\<close>); the last three are the
  environment: what \<open>uuid()\<close> will return, \<^verbatim>\<open>JSON.parse\<close> and the conversion to a string.
  The URL of the socket is not part of the model.
\<close>

definition Messenger ::
  "string \<Rightarrow> (string \<Rightarrow> string option) \<Rightarrow> (string \<rightharpoonup> nat) \<Rightarrow>
   (nat \<Rightarrow> string) \<Rightarrow> (string \<Rightarrow> json option) \<Rightarrow> (json \<Rightarrow> string) \<Rightarrow> world" where
  "Messenger addr signer rpcActions uuids parse to_string =
     \<lparr>address = addr, messageSigner = signer, isAuthenticated = False,
      RESOLVERS = Map.empty, REJECTORS = Map.empty, TIMEOUTS = Map.empty,
      RPC_METHOD_ACTIONS = rpcActions,
      sent = [], connect_promise = Pending,
      now = 0, timers = Map.empty, next_timer = 0,
      promises = (\<lambda>p. Pending), next_promise = 0,
      uuid_values = uuids, uuid_count = 0,
      JSON_parse = parse, ToString = to_string, trace = []\<rparr>"

text \<open>
  \<open>connect\<close>: a new socket, and a new pending promise for the handshake. Of the handlers it
  installs, \<open>onmessage\<close> is modelled below; the liveness probe of \<open>onopen\<close>, the reconnection of
  \<open>onclose\<close> and \<open>onerror\<close> are not part of the model, which follows one connection.
\<close>

definition connect :: "world \<Rightarrow> world" where
  "connect w = w\<lparr>sent := [], connect_promise := Pending\<rparr>"

subsection \<open>\<open>makeRPC\<close> and \<open>call\<close>\<close>

definition makeRPC :: "string \<Rightarrow> json \<Rightarrow> json option \<Rightarrow> world \<Rightarrow> rpc \<times> world" where
  "makeRPC method params id_arg w =
     (case id_arg of
        Some i \<Rightarrow> (\<lparr>jsonrpc = ''2.0'', rpc_method = method, rpc_params = params, rpc_id = i\<rparr>, w)
      | None \<Rightarrow>
          (let (u, w') = uuid w in
           (\<lparr>jsonrpc = ''2.0'', rpc_method = method, rpc_params = params, rpc_id = JStr u\<rparr>, w')))"

text \<open>The argument of the rejector when the timer of a call fires.\<close>

definition timeout_error :: "string \<Rightarrow> json" where
  "timeout_error k =
     JObj [(''message'', JStr (''Request timed out. ['' @ k @ '']'')), (''code'', JNum (- 1))]"

text \<open>
  \<open>call(receiver, message, resolve, reject)\<close>. \<open>resolve\<close> and \<open>reject\<close> are \<open>Some f\<close> when
  \<^verbatim>\<open>typeof\<close> says \<open>function\<close>, otherwise \<open>None\<close>. The timer is armed whether or not a rejector
  is given; its handle overwrites \<open>TIMEOUTS[message.id]\<close>.
\<close>

definition call ::
  "string \<Rightarrow> rpc \<Rightarrow> callback option \<Rightarrow> callback option \<Rightarrow> world \<Rightarrow> world" where
  "call receiver message resolve reject w =
     (let (eid, w0) = uuid w;
          w1 = w0\<lparr>sent := sent w0 @ [Envelope (toLowerCase (address w0)) receiver message eid]\<rparr>;
          k = js_string w1 (rpc_id message);
          w2 = (case resolve of Some f \<Rightarrow> w1\<lparr>RESOLVERS := (RESOLVERS w1)(k \<mapsto> f)\<rparr> | None \<Rightarrow> w1);
          w3 = (case reject of Some f \<Rightarrow> w2\<lparr>REJECTORS := (REJECTORS w2)(k \<mapsto> f)\<rparr> | None \<Rightarrow> w2);
          h = next_timer w3
      in w3\<lparr>TIMEOUTS := (TIMEOUTS w3)(k \<mapsto> h),
            timers := (timers w3)(h \<mapsto> \<lparr>due = now w3 + TIMEOUT, t_reject = reject, t_id = k\<rparr>),
            next_timer := Suc h\<rparr>)"

text \<open>
  The timer's function runs: the timer is no longer armed, and the rejector given to \<open>call\<close>
  (if any) gets the timeout error. Nothing is removed from the three tables.
\<close>

definition fire_timer :: "nat \<Rightarrow> world \<Rightarrow> world" where
  "fire_timer h w =
     (case timers w h of
        None \<Rightarrow> w
      | Some t \<Rightarrow>
          (let w1 = w\<lparr>timers := (timers w)(h := None)\<rparr> in
           case t_reject t of Some f \<Rightarrow> invoke f (timeout_error (t_id t)) w1 | None \<Rightarrow> w1))"

text \<open>
  Time passes, as the event loop lets it: the armed timers that are due by then run, in the
  order of their due times (handles in increasing order among equal due times), and the clock
  is advanced. A timer runs once, and never before its due time.
\<close>

definition due_of :: "world \<Rightarrow> nat \<Rightarrow> nat" where
  "due_of w h = (case timers w h of None \<Rightarrow> 0 | Some t \<Rightarrow> due t)"

definition due_timers :: "nat \<Rightarrow> world \<Rightarrow> nat list" where
  "due_timers t w =
     sort_key (due_of w)
       (filter (\<lambda>h. case timers w h of None \<Rightarrow> False | Some tm \<Rightarrow> due tm \<le> t)
          [0..<next_timer w])"

definition elapse :: "nat \<Rightarrow> world \<Rightarrow> world" where
  "elapse d w = (fold fire_timer (due_timers (now w + d) w) w)\<lparr>now := now w + d\<rparr>"

subsection \<open>The \<open>onmessage\<close> handler installed by \<open>connect\<close>\<close>

text \<open>
  The two \<^verbatim>\<open>JSON.parse\<close> calls inside \<^verbatim>\<open>try\<close>, and the test
  \<^verbatim>\<open>if (!payload || !message) return\<close>: \<open>Some message\<close> when the handler goes on.
  Reading \<open>payload.message\<close> of \<open>null\<close> throws inside the \<^verbatim>\<open>try\<close>.
\<close>

definition inner_message :: "world \<Rightarrow> string \<Rightarrow> json option" where
  "inner_message w data =
     (case JSON_parse w data of
        None \<Rightarrow> None
      | Some payload \<Rightarrow>
          (case payload of
             JNull \<Rightarrow> None
           | _ \<Rightarrow>
              (case js_get payload ''message'' of
                 None \<Rightarrow> None
               | Some pm \<Rightarrow>
                   if \<not> truthy pm then None
                   else
                     (case JSON_parse w (js_string w pm) of
                        None \<Rightarrow> None
                      | Some message \<Rightarrow>
                          if \<not> truthy payload \<or> \<not> truthy message then None
                          else Some message))))"

text \<open>
  The branch \<^verbatim>\<open>else if (message.id)\<close>: a response to a call. The resolver runs when there is
  no \<open>error\<close> key and \<open>result\<close> is truthy, the rejector when there is an \<open>error\<close> key; then, in
  every case, the two entries are deleted and the timer is cleared.
\<close>

definition response :: "json \<Rightarrow> world \<Rightarrow> world" where
  "response message w =
     (let k = prop_key w (js_get message ''id'');
          isError = hasOwnProperty message ''error'';
          w1 =
            (if \<not> isError \<and> truthy_opt (js_get message ''result'') then
               (case (RESOLVERS w k, js_get message ''result'') of
                  (Some f, Some r) \<Rightarrow> invoke f r w
                | _ \<Rightarrow> w)
             else if isError then
               (case (REJECTORS w k, js_get message ''error'') of
                  (Some f, Some e) \<Rightarrow> invoke f e w
                | _ \<Rightarrow> w)
             else w);
          w2 = w1\<lparr>RESOLVERS := (RESOLVERS w1)(k := None)\<rparr>;
          w3 = w2\<lparr>REJECTORS := (REJECTORS w2)(k := None)\<rparr>
      in clearTimeout (TIMEOUTS w3 k) w3)"

text \<open>The branch \<^verbatim>\<open>if (message.method)\<close>: a peer invokes a method.\<close>

definition dispatch :: "json \<Rightarrow> world \<Rightarrow> world" where
  "dispatch message w =
     (case RPC_METHOD_ACTIONS w (prop_key w (js_get message ''method'')) of
        None \<Rightarrow> w
      | Some h \<Rightarrow> w\<lparr>trace := trace w @ [Handled h message]\<rparr>)"

definition onmessage :: "string \<Rightarrow> world \<Rightarrow> world" where
  "onmessage data w =
     (if \<not> isAuthenticated w then
        (if data = ''ok'' then
           w\<lparr>isAuthenticated := True,
             connect_promise := settle (Fulfilled data) (connect_promise w)\<rparr>
         else if data = ''not authorized'' then
           w\<lparr>connect_promise := settle (Rejected ''Address is not authorized.'') (connect_promise w)\<rparr>
         else
           (case messageSigner w data of
              None \<Rightarrow> w
            | Some signature \<Rightarrow> w\<lparr>sent := sent w @ [Signature signature]\<rparr>))
      else
        (case inner_message w data of
           None \<Rightarrow> w
         | Some message \<Rightarrow>
             if truthy_opt (js_get message ''method'') then dispatch message w
             else if truthy_opt (js_get message ''id'') then response message w
             else w))"

subsection \<open>The RPC helpers \<open>getOrder\<close>, \<open>getQuote\<close>, \<open>getMaxQuote\<close> and \<open>getOrders\<close>\<close>

text \<open>What \<^verbatim>\<open>throw new Error(text)\<close> throws.\<close>

datatype error = Error string

text \<open>
  \<^verbatim>\<open>new Promise((res, rej) => this.call(receiver, payload, res, rej))\<close>: a new pending
  promise, whose two functions are the resolver and the rejector of the call.
\<close>

definition promise_call :: "string \<Rightarrow> rpc \<Rightarrow> world \<Rightarrow> nat \<times> world" where
  "promise_call receiver payload w =
     (let p = next_promise w;
          w1 = w\<lparr>promises := (promises w)(p := Pending), next_promise := Suc p\<rparr>
      in (p, call receiver payload (Some (PromiseResolve p)) (Some (PromiseReject p)) w1))"

text \<open>
  A property of \<open>params\<close> as the guards test it: present with a truthy value. The parameters
  are an object; a property that is \<open>undefined\<close> is left out of an object that is built.
\<close>

definition given :: "obj \<Rightarrow> string \<Rightarrow> bool" where
  "given params k = truthy_opt (map_of params k)"

definition field :: "string \<Rightarrow> json option \<Rightarrow> obj" where
  "field k v = (case v of None \<Rightarrow> [] | Some x \<Rightarrow> [(k, x)])"

text \<open>\<^verbatim>\<open>amount ? String(amount) : null\<close>\<close>

definition amount_string :: "world \<Rightarrow> json option \<Rightarrow> json" where
  "amount_string w v =
     (case v of None \<Rightarrow> JNull | Some x \<Rightarrow> if truthy x then JStr (js_string w x) else JNull)"

text \<open>
  The helpers return the outcome (the error thrown, or the promise of the call) and the world
  after them. The promise of \<open>getOrder\<close> is the one of its call: the decoding of the order's
  \<open>v\<close> in \<^verbatim>\<open>then\<close> is not part of the model.
\<close>

definition getOrder :: "string \<Rightarrow> obj \<Rightarrow> world \<Rightarrow> (error + nat) \<times> world" where
  "getOrder maker params w =
     (let BadArgumentsError = Error ''bad arguments passed to getOrder'' in
      if \<not> given params ''makerAmount'' \<and> \<not> given params ''takerAmount''
        then (Inl BadArgumentsError, w)
      else if given params ''makerAmount'' \<and> given params ''takerAmount''
        then (Inl BadArgumentsError, w)
      else if \<not> given params ''takerToken'' \<or> \<not> given params ''makerToken''
        then (Inl BadArgumentsError, w)
      else
        (let (payload, w1) =
               makeRPC ''getOrder''
                 (JObj (field ''makerToken'' (map_of params ''makerToken'') @
                        field ''takerToken'' (map_of params ''takerToken'') @
                        [(''takerAddress'', JStr (toLowerCase (address w))),
                         (''makerAmount'', amount_string w (map_of params ''makerAmount'')),
                         (''takerAmount'', amount_string w (map_of params ''takerAmount''))]))
                 None w;
             (p, w2) = promise_call maker payload w1
         in (Inr p, w2)))"

definition getQuote :: "string \<Rightarrow> obj \<Rightarrow> world \<Rightarrow> (error + nat) \<times> world" where
  "getQuote maker params w =
     (let BadArgumentsError = Error ''bad arguments passed to getOrder'' in
      if \<not> given params ''makerAmount'' \<and> \<not> given params ''takerAmount''
        then (Inl BadArgumentsError, w)
      else if given params ''makerAmount'' \<and> given params ''takerAmount''
        then (Inl BadArgumentsError, w)
      else if \<not> given params ''takerToken'' \<or> \<not> given params ''makerToken''
        then (Inl BadArgumentsError, w)
      else
        (let (payload, w1) =
               makeRPC ''getQuote''
                 (JObj (field ''makerToken'' (map_of params ''makerToken'') @
                        field ''takerToken'' (map_of params ''takerToken'') @
                        [(''makerAmount'', amount_string w (map_of params ''makerAmount'')),
                         (''takerAmount'', amount_string w (map_of params ''takerAmount''))]))
                 None w;
             (p, w2) = promise_call maker payload w1
         in (Inr p, w2)))"

definition getMaxQuote :: "string \<Rightarrow> obj \<Rightarrow> world \<Rightarrow> (error + nat) \<times> world" where
  "getMaxQuote maker params w =
     (let BadArgumentsError = Error ''bad arguments passed to getOrder'' in
      if \<not> given params ''takerToken'' \<or> \<not> given params ''makerToken''
        then (Inl BadArgumentsError, w)
      else
        (let (payload, w1) =
               makeRPC ''getMaxQuote''
                 (JObj (field ''makerToken'' (map_of params ''makerToken'') @
                        field ''takerToken'' (map_of params ''takerToken'')))
                 None w;
             (p, w2) = promise_call maker payload w1
         in (Inr p, w2)))"










subsection \<open>What happens to a messenger, and what was invoked\<close>

text \<open>
  The events of a messenger's life: the socket delivers a message, time passes, the application
  calls \<open>call\<close>.
\<close>

datatype event =
    Message string
  | Elapse nat
  | Call string rpc "callback option" "callback option"

fun step :: "event \<Rightarrow> world \<Rightarrow> world" where
  "step (Message data) w = onmessage data w"
| "step (Elapse d) w = elapse d w"
| "step (Call receiver message resolve reject) w = call receiver message resolve reject w"

definition run :: "event list \<Rightarrow> world \<Rightarrow> world" where
  "run es w = fold step es w"







section \<open>A messenger to run the examples on\<close>

text \<open>
  A stand-in for \<^verbatim>\<open>JSON.parse\<close> on the texts of the examples: the text \<open>E:m\<close> is an envelope
  whose \<open>message\<close> is the text \<open>m\<close>, and the texts of the inner messages are those of
  \<open>demo_messages\<close>; every other text does not parse.
\<close>

definition demo_messages :: "(string \<times> json) list" where
  "demo_messages =
     [(''a.result'', JObj [(''jsonrpc'', JStr ''2.0''), (''id'', JStr ''a''), (''result'', JStr ''r'')]),
      (''a.error'', JObj [(''jsonrpc'', JStr ''2.0''), (''id'', JStr ''a''), (''error'', JStr ''e'')]),
      (''a.false'', JObj [(''jsonrpc'', JStr ''2.0''), (''id'', JStr ''a''), (''result'', JBool False)]),
      (''a.bare'', JObj [(''jsonrpc'', JStr ''2.0''), (''id'', JStr ''a'')]),
      (''a.method'', JObj [(''method'', JStr []), (''id'', JStr ''a''), (''result'', JStr ''r'')]),
      (''z.result'', JObj [(''jsonrpc'', JStr ''2.0''), (''id'', JStr ''z''), (''result'', JStr ''r'')]),
      (''ping'', JObj [(''method'', JStr ''ping''), (''params'', JObj [])]),
      (''pong'', JObj [(''method'', JStr ''pong''), (''params'', JObj [])]),
      (''u.result'', JObj [(''jsonrpc'', JStr ''2.0''), (''id'', JStr ''u''), (''result'', JStr ''order'')]),
      (''u.false'', JObj [(''jsonrpc'', JStr ''2.0''), (''id'', JStr ''u''), (''result'', JBool False)])]"

definition demo_parse :: "string \<Rightarrow> json option" where
  "demo_parse s =
     (if take 2 s = ''E:'' then Some (JObj [(''sender'', JStr ''0xpeer''), (''message'', JStr (drop 2 s))])
      else map_of demo_messages s)"

text \<open>
  A messenger with the handler \<open>0\<close> registered for \<open>ping\<close>, a signer that prefixes the
  challenge, and \<open>uuid()\<close> returning \<open>u\<close>, \<open>uu\<close>, \<open>uuu\<close>, ...
\<close>

definition demo_messenger :: world where
  "demo_messenger =
     Messenger ''0xAbC'' (\<lambda>c. Some (''signed:'' @ c)) [''ping'' \<mapsto> 0]
       (\<lambda>n. replicate (Suc n) CHR ''u'') demo_parse (\<lambda>v. ''[object Object]'')"

text \<open>Connected and authenticated.\<close>

definition demo_ready :: world where
  "demo_ready = onmessage ''ok'' (connect demo_messenger)"

definition demo_request :: rpc where
  "demo_request =
     \<lparr>jsonrpc = ''2.0'', rpc_method = ''getOrder'', rpc_params = JObj [], rpc_id = JStr ''a''\<rparr>"

text \<open>A call with the id \<open>a\<close> is waiting, with the resolver \<open>Fn 1\<close> and the rejector \<open>Fn 2\<close>.\<close>

definition demo_pending :: world where
  "demo_pending = call ''0xmaker'' demo_request (Some (Fn 1)) (Some (Fn 2)) demo_ready"



section \<open>Basic facts\<close>

lemma hasOwnProperty_iff: "hasOwnProperty v k = (js_get v k \<noteq> None)"
  by (cases v) (auto simp: hasOwnProperty_def js_get_def map_of_eq_None_iff)


lemma invoke_fields:
  "trace (invoke f v w) = trace w @ [Invoked f v]"
  "RESOLVERS (invoke f v w) = RESOLVERS w"
  "REJECTORS (invoke f v w) = REJECTORS w"
  "TIMEOUTS (invoke f v w) = TIMEOUTS w"
  "timers (invoke f v w) = timers w"
  "next_timer (invoke f v w) = next_timer w"
  "isAuthenticated (invoke f v w) = isAuthenticated w"
  "connect_promise (invoke f v w) = connect_promise w"
  "sent (invoke f v w) = sent w"
  "now (invoke f v w) = now w"
  "JSON_parse (invoke f v w) = JSON_parse w"
  "ToString (invoke f v w) = ToString w"
  "RPC_METHOD_ACTIONS (invoke f v w) = RPC_METHOD_ACTIONS w"
  by (auto simp: invoke_def Let_def split: callback.splits)

lemma onmessage_rpc:
  "isAuthenticated w \<Longrightarrow> inner_message w data = Some m \<Longrightarrow>
   onmessage data w =
     (if truthy_opt (js_get m ''method'') then dispatch m w
      else if truthy_opt (js_get m ''id'') then response m w else w)"
  by (simp add: onmessage_def)

lemma response_trace:
  "trace (response m w) =
     trace w @
     (if \<not> hasOwnProperty m ''error'' \<and> truthy_opt (js_get m ''result'') then
        (case (RESOLVERS w (prop_key w (js_get m ''id'')), js_get m ''result'') of
           (Some f, Some r) \<Rightarrow> [Invoked f r] | _ \<Rightarrow> [])
      else if hasOwnProperty m ''error'' then
        (case (REJECTORS w (prop_key w (js_get m ''id'')), js_get m ''error'') of
           (Some f, Some e) \<Rightarrow> [Invoked f e] | _ \<Rightarrow> [])
      else [])"
  by (auto simp: response_def Let_def clearTimeout_def invoke_fields split: option.splits)

lemma response_fields:
  "RESOLVERS (response m w) = (RESOLVERS w)(prop_key w (js_get m ''id'') := None)"
  "REJECTORS (response m w) = (REJECTORS w)(prop_key w (js_get m ''id'') := None)"
  "TIMEOUTS (response m w) = TIMEOUTS w"
  "timers (response m w) =
     (case TIMEOUTS w (prop_key w (js_get m ''id'')) of
        None \<Rightarrow> timers w | Some h \<Rightarrow> (timers w)(h := None))"
  "next_timer (response m w) = next_timer w"
  "isAuthenticated (response m w) = isAuthenticated w"
  "connect_promise (response m w) = connect_promise w"
  "sent (response m w) = sent w"
  "now (response m w) = now w"
  "JSON_parse (response m w) = JSON_parse w"
  "ToString (response m w) = ToString w"
  "RPC_METHOD_ACTIONS (response m w) = RPC_METHOD_ACTIONS w"
proof -
  define k where "k = prop_key w (js_get m ''id'')"
  define w1 where "w1 =
     (if \<not> hasOwnProperty m ''error'' \<and> truthy_opt (js_get m ''result'') then
        (case (RESOLVERS w k, js_get m ''result'') of (Some f, Some r) \<Rightarrow> invoke f r w | _ \<Rightarrow> w)
      else if hasOwnProperty m ''error'' then
        (case (REJECTORS w k, js_get m ''error'') of (Some f, Some e) \<Rightarrow> invoke f e w | _ \<Rightarrow> w)
      else w)"
  have r: "response m w =
      clearTimeout (TIMEOUTS w1 k) (w1\<lparr>RESOLVERS := (RESOLVERS w1)(k := None),
                                          REJECTORS := (REJECTORS w1)(k := None)\<rparr>)"
    by (simp add: response_def Let_def k_def w1_def)
  have w1: "RESOLVERS w1 = RESOLVERS w" "REJECTORS w1 = REJECTORS w" "TIMEOUTS w1 = TIMEOUTS w"
    "timers w1 = timers w" "next_timer w1 = next_timer w" "isAuthenticated w1 = isAuthenticated w"
    "connect_promise w1 = connect_promise w" "sent w1 = sent w" "now w1 = now w"
    "JSON_parse w1 = JSON_parse w" "ToString w1 = ToString w"
    "RPC_METHOD_ACTIONS w1 = RPC_METHOD_ACTIONS w"
    by (simp_all add: w1_def invoke_fields split: option.splits)
  show
    "RESOLVERS (response m w) = (RESOLVERS w)(prop_key w (js_get m ''id'') := None)"
    "REJECTORS (response m w) = (REJECTORS w)(prop_key w (js_get m ''id'') := None)"
    "TIMEOUTS (response m w) = TIMEOUTS w"
    "timers (response m w) =
       (case TIMEOUTS w (prop_key w (js_get m ''id'')) of
          None \<Rightarrow> timers w | Some h \<Rightarrow> (timers w)(h := None))"
    "next_timer (response m w) = next_timer w"
    "isAuthenticated (response m w) = isAuthenticated w"
    "connect_promise (response m w) = connect_promise w"
    "sent (response m w) = sent w"
    "now (response m w) = now w"
    "JSON_parse (response m w) = JSON_parse w"
    "ToString (response m w) = ToString w"
    "RPC_METHOD_ACTIONS (response m w) = RPC_METHOD_ACTIONS w"
    unfolding r using w1
    by (simp_all add: clearTimeout_def k_def split: option.splits)
qed

lemma dispatch_fields:
  "RESOLVERS (dispatch m w) = RESOLVERS w"
  "REJECTORS (dispatch m w) = REJECTORS w"
  "TIMEOUTS (dispatch m w) = TIMEOUTS w"
  "timers (dispatch m w) = timers w"
  "next_timer (dispatch m w) = next_timer w"
  "isAuthenticated (dispatch m w) = isAuthenticated w"
  "connect_promise (dispatch m w) = connect_promise w"
  "sent (dispatch m w) = sent w"
  "now (dispatch m w) = now w"
  "JSON_parse (dispatch m w) = JSON_parse w"
  "ToString (dispatch m w) = ToString w"
  "RPC_METHOD_ACTIONS (dispatch m w) = RPC_METHOD_ACTIONS w"
  "promises (dispatch m w) = promises w"
  by (auto simp: dispatch_def split: option.splits)


lemma call_fields:
  "RESOLVERS (call r m res rej w) =
     (case res of None \<Rightarrow> RESOLVERS w | Some f \<Rightarrow> (RESOLVERS w)(js_string w (rpc_id m) \<mapsto> f))"
  "REJECTORS (call r m res rej w) =
     (case rej of None \<Rightarrow> REJECTORS w | Some f \<Rightarrow> (REJECTORS w)(js_string w (rpc_id m) \<mapsto> f))"
  "TIMEOUTS (call r m res rej w) = (TIMEOUTS w)(js_string w (rpc_id m) \<mapsto> next_timer w)"
  "timers (call r m res rej w) =
     (timers w)(next_timer w \<mapsto>
        \<lparr>due = now w + TIMEOUT, t_reject = rej, t_id = js_string w (rpc_id m)\<rparr>)"
  "next_timer (call r m res rej w) = Suc (next_timer w)"
  "trace (call r m res rej w) = trace w"
  "isAuthenticated (call r m res rej w) = isAuthenticated w"
  "connect_promise (call r m res rej w) = connect_promise w"
  "now (call r m res rej w) = now w"
  "JSON_parse (call r m res rej w) = JSON_parse w"
  "ToString (call r m res rej w) = ToString w"
  "RPC_METHOD_ACTIONS (call r m res rej w) = RPC_METHOD_ACTIONS w"
  "promises (call r m res rej w) = promises w"
  "next_promise (call r m res rej w) = next_promise w"
  "sent (call r m res rej w) =
     sent w @ [Envelope (toLowerCase (address w)) r m (uuid_values w (uuid_count w))]"
  "uuid_count (call r m res rej w) = Suc (uuid_count w)"
  "uuid_values (call r m res rej w) = uuid_values w"
  "address (call r m res rej w) = address w"
  by (auto simp: call_def uuid_def Let_def js_string_def split: option.splits json.splits)

lemma fire_timer_fields:
  "RESOLVERS (fire_timer h w) = RESOLVERS w"
  "REJECTORS (fire_timer h w) = REJECTORS w"
  "TIMEOUTS (fire_timer h w) = TIMEOUTS w"
  "timers (fire_timer h w) = (timers w)(h := None)"
  "next_timer (fire_timer h w) = next_timer w"
  "isAuthenticated (fire_timer h w) = isAuthenticated w"
  "connect_promise (fire_timer h w) = connect_promise w"
  "sent (fire_timer h w) = sent w"
  "now (fire_timer h w) = now w"
  "JSON_parse (fire_timer h w) = JSON_parse w"
  "ToString (fire_timer h w) = ToString w"
  "RPC_METHOD_ACTIONS (fire_timer h w) = RPC_METHOD_ACTIONS w"
  by (auto simp: fire_timer_def Let_def invoke_fields split: option.splits)

lemma fire_timer_trace:
  "trace (fire_timer h w) =
     trace w @
     (case timers w h of
        None \<Rightarrow> []
      | Some t \<Rightarrow> (case t_reject t of None \<Rightarrow> [] | Some f \<Rightarrow> [Invoked f (timeout_error (t_id t))]))"
  by (auto simp: fire_timer_def Let_def invoke_fields split: option.splits)

lemma key_static:
  "ToString w' = ToString w \<Longrightarrow> js_string w' v = js_string w v"
  "ToString w' = ToString w \<Longrightarrow> prop_key w' u = prop_key w u"
  by (auto simp: js_string_def prop_key_def split: json.splits option.splits)

lemma inner_message_static:
  assumes "JSON_parse w' = JSON_parse w" "ToString w' = ToString w"
  shows "inner_message w' d = inner_message w d"
proof -
  have js: "js_string w' = js_string w"
    by (rule ext) (simp add: key_static(1) [OF assms(2)])
  show ?thesis
    unfolding inner_message_def assms(1) js by (rule refl)
qed

lemma onmessage_unparsed:
  "isAuthenticated w \<Longrightarrow> inner_message w data = None \<Longrightarrow> onmessage data w = w"
  by (simp add: onmessage_def)

lemma onmessage_handshake:
  "\<not> isAuthenticated w \<Longrightarrow>
   onmessage data w =
     (if data = ''ok'' then
        w\<lparr>isAuthenticated := True, connect_promise := settle (Fulfilled data) (connect_promise w)\<rparr>
      else if data = ''not authorized'' then
        w\<lparr>connect_promise := settle (Rejected ''Address is not authorized.'') (connect_promise w)\<rparr>
      else (case messageSigner w data of
              None \<Rightarrow> w
            | Some signature \<Rightarrow> w\<lparr>sent := sent w @ [Signature signature]\<rparr>))"
  by (simp add: onmessage_def)


lemma fold_fire_timer_static:
  "JSON_parse (fold fire_timer hs w) = JSON_parse w"
  "ToString (fold fire_timer hs w) = ToString w"
  "RPC_METHOD_ACTIONS (fold fire_timer hs w) = RPC_METHOD_ACTIONS w"
  "next_timer (fold fire_timer hs w) = next_timer w"
  "RESOLVERS (fold fire_timer hs w) = RESOLVERS w"
  "REJECTORS (fold fire_timer hs w) = REJECTORS w"
  "TIMEOUTS (fold fire_timer hs w) = TIMEOUTS w"
  "isAuthenticated (fold fire_timer hs w) = isAuthenticated w"
  "connect_promise (fold fire_timer hs w) = connect_promise w"
  "sent (fold fire_timer hs w) = sent w"
  "now (fold fire_timer hs w) = now w"
  by (induction hs arbitrary: w; simp add: fire_timer_fields)+

lemma fold_fire_timer_timers:
  "timers (fold fire_timer hs w) h = (if h \<in> set hs then None else timers w h)"
  by (induction hs arbitrary: w) (auto simp: fire_timer_fields)

lemma elapse_fields:
  "JSON_parse (elapse d w) = JSON_parse w"
  "ToString (elapse d w) = ToString w"
  "RPC_METHOD_ACTIONS (elapse d w) = RPC_METHOD_ACTIONS w"
  "next_timer (elapse d w) = next_timer w"
  "RESOLVERS (elapse d w) = RESOLVERS w"
  "REJECTORS (elapse d w) = REJECTORS w"
  "TIMEOUTS (elapse d w) = TIMEOUTS w"
  "isAuthenticated (elapse d w) = isAuthenticated w"
  "connect_promise (elapse d w) = connect_promise w"
  "sent (elapse d w) = sent w"
  "now (elapse d w) = now w + d"
  "trace (elapse d w) = trace (fold fire_timer (due_timers (now w + d) w) w)"
  "timers (elapse d w) = timers (fold fire_timer (due_timers (now w + d) w) w)"
  by (simp_all add: elapse_def fold_fire_timer_static)




subsection \<open>A callback the messenger does not hold is not invoked\<close>













lemma fold_onmessage_challenges:
  assumes "\<not> isAuthenticated w" "\<forall>c\<in>set cs. c \<noteq> ''ok''"
  shows "\<not> isAuthenticated (fold onmessage cs w) \<and>
         trace (fold onmessage cs w) = trace w \<and>
         RESOLVERS (fold onmessage cs w) = RESOLVERS w \<and>
         REJECTORS (fold onmessage cs w) = REJECTORS w \<and>
         TIMEOUTS (fold onmessage cs w) = TIMEOUTS w \<and>
         timers (fold onmessage cs w) = timers w \<and>
         (connect_promise w = Rejected x \<longrightarrow> connect_promise (fold onmessage cs w) = Rejected x) \<and>
         ((\<forall>c\<in>set cs. c \<noteq> ''not authorized'') \<longrightarrow>
            connect_promise (fold onmessage cs w) = connect_promise w)"
  using assms
proof (induction cs arbitrary: w)
  case Nil
  then show ?case by simp
next
  case (Cons c cs)
  have c: "\<not> isAuthenticated (onmessage c w)" "trace (onmessage c w) = trace w"
    "RESOLVERS (onmessage c w) = RESOLVERS w" "REJECTORS (onmessage c w) = REJECTORS w"
    "TIMEOUTS (onmessage c w) = TIMEOUTS w" "timers (onmessage c w) = timers w"
    "connect_promise w = Rejected x \<Longrightarrow> connect_promise (onmessage c w) = Rejected x"
    "c \<noteq> ''not authorized'' \<Longrightarrow> connect_promise (onmessage c w) = connect_promise w"
    using Cons.prems by (auto simp: onmessage_handshake settle_def split: option.splits)
  show ?case
    using Cons.IH [OF c(1)] Cons.prems(2) c by auto
qed

lemma handshake_invariant:
  assumes "\<not> isAuthenticated w0"
  shows "isAuthenticated (fold onmessage pre (connect w0)) \<or>
         connect_promise (fold onmessage pre (connect w0)) = Pending \<or>
         connect_promise (fold onmessage pre (connect w0)) = Rejected ''Address is not authorized.''"
proof (induction pre rule: rev_induct)
  case Nil
  then show ?case by (simp add: connect_def)
next
  case (snoc d pre)
  let ?w = "fold onmessage pre (connect w0)"
  show ?case
  proof (cases "isAuthenticated ?w")
    case True
    then have "isAuthenticated (onmessage d ?w)"
      by (cases "inner_message ?w d")
         (auto simp: onmessage_rpc onmessage_unparsed dispatch_fields response_fields)
    then show ?thesis by simp
  next
    case False
    then show ?thesis
      using snoc by (auto simp: onmessage_handshake settle_def split: option.splits)
  qed
qed


subsection \<open>The example messenger\<close>

lemmas demo_world_defs =
  demo_pending_def demo_ready_def demo_messenger_def demo_request_def Messenger_def connect_def
  call_def uuid_def onmessage_def settle_def js_string_def TIMEOUT_def Let_def

lemma demo_pending_fields:
  "isAuthenticated demo_pending"
  "RESOLVERS demo_pending = [''a'' \<mapsto> Fn 1]"
  "REJECTORS demo_pending = [''a'' \<mapsto> Fn 2]"
  "TIMEOUTS demo_pending = [''a'' \<mapsto> 0]"
  "timers demo_pending = [0 \<mapsto> \<lparr>due = 12000, t_reject = Some (Fn 2), t_id = ''a''\<rparr>]"
  "next_timer demo_pending = 1"
  "now demo_pending = 0"
  "trace demo_pending = []"
  "JSON_parse demo_pending = demo_parse"
  "RPC_METHOD_ACTIONS demo_pending = [''ping'' \<mapsto> 0]"
  by (simp_all add: demo_world_defs)

lemma demo_inner_message:
  "JSON_parse w = demo_parse \<Longrightarrow> take 2 m \<noteq> ''E:'' \<Longrightarrow> map_of demo_messages m = Some v \<Longrightarrow>
   truthy v \<Longrightarrow> m \<noteq> [] \<Longrightarrow> inner_message w (''E:'' @ m) = Some v"
  by (simp add: inner_message_def demo_parse_def js_get_def js_string_def)

lemma demo_replies:
  "inner_message demo_pending ''E:a.result'' =
     Some (JObj [(''jsonrpc'', JStr ''2.0''), (''id'', JStr ''a''), (''result'', JStr ''r'')])"
  "inner_message demo_pending ''E:a.error'' =
     Some (JObj [(''jsonrpc'', JStr ''2.0''), (''id'', JStr ''a''), (''error'', JStr ''e'')])"
  "inner_message demo_pending ''E:a.false'' =
     Some (JObj [(''jsonrpc'', JStr ''2.0''), (''id'', JStr ''a''), (''result'', JBool False)])"
  "inner_message demo_pending ''E:a.bare'' =
     Some (JObj [(''jsonrpc'', JStr ''2.0''), (''id'', JStr ''a'')])"
  "inner_message demo_pending ''E:a.method'' =
     Some (JObj [(''method'', JStr []), (''id'', JStr ''a''), (''result'', JStr ''r'')])"
  "inner_message demo_pending ''E:z.result'' =
     Some (JObj [(''jsonrpc'', JStr ''2.0''), (''id'', JStr ''z''), (''result'', JStr ''r'')])"
  "inner_message demo_pending ''E:ping'' =
     Some (JObj [(''method'', JStr ''ping''), (''params'', JObj [])])"
  "inner_message demo_pending ''E:pong'' =
     Some (JObj [(''method'', JStr ''pong''), (''params'', JObj [])])"
  using demo_inner_message [of demo_pending "''a.result''"]
    demo_inner_message [of demo_pending "''a.error''"]
    demo_inner_message [of demo_pending "''a.false''"]
    demo_inner_message [of demo_pending "''a.bare''"]
    demo_inner_message [of demo_pending "''a.method''"]
    demo_inner_message [of demo_pending "''z.result''"]
    demo_inner_message [of demo_pending "''ping''"]
    demo_inner_message [of demo_pending "''pong''"]
  by (simp_all add: demo_pending_fields demo_messages_def)




section \<open>Responses to calls\<close>









section \<open>Invocations by peers\<close>




section \<open>The handshake\<close>



text \<open>
  Claim C6. On a connection opened by \<open>connect\<close> while not authenticated, when \<open>not authorized\<close>
  arrives before authentication: the promise of \<open>connect\<close> is rejected with the authorization
  error and the messenger is still not authenticated; and every later message, for as long as
  none of them is \<open>ok\<close>, is handled by the handshake and not as RPC traffic: no handler, resolver
  or rejector is invoked, and the three tables and the timers stay as they are.
\<close>

theorem not_authorized_rejects_connect:
  assumes "\<not> isAuthenticated w0"
    and "w = fold onmessage pre (connect w0)"
    and "\<not> isAuthenticated w"
    and "w' = fold onmessage post (onmessage ''not authorized'' w)"
    and "\<forall>d\<in>set post. d \<noteq> ''ok''"
  shows
    "connect_promise (onmessage ''not authorized'' w) = Rejected ''Address is not authorized.'' \<and>
     \<not> isAuthenticated (onmessage ''not authorized'' w) \<and>
     \<not> isAuthenticated w' \<and>
     connect_promise w' = Rejected ''Address is not authorized.'' \<and>
     trace w' = trace w \<and> RESOLVERS w' = RESOLVERS w \<and> REJECTORS w' = REJECTORS w \<and>
     TIMEOUTS w' = TIMEOUTS w \<and> timers w' = timers w"
proof -
  let ?w1 = "onmessage ''not authorized'' w"
  have "connect_promise w = Pending \<or> connect_promise w = Rejected ''Address is not authorized.''"
    using handshake_invariant [OF assms(1), of pre] assms(2,3) by simp
  then have one: "connect_promise ?w1 = Rejected ''Address is not authorized.''"
    "\<not> isAuthenticated ?w1" "trace ?w1 = trace w" "RESOLVERS ?w1 = RESOLVERS w"
    "REJECTORS ?w1 = REJECTORS w" "TIMEOUTS ?w1 = TIMEOUTS w" "timers ?w1 = timers w"
    using assms(3) by (auto simp: onmessage_handshake settle_def)
  show ?thesis
    using fold_onmessage_challenges [OF one(2) assms(5), of "''Address is not authorized.''"] one
    unfolding assms(4) by simp
qed

theorem not_authorized_rejects_connect_witness:
  "connect_promise (onmessage ''not authorized'' (fold onmessage [''xyz''] (connect demo_messenger)))
     = Rejected ''Address is not authorized.'' \<and>
   \<not> isAuthenticated (onmessage ''not authorized'' (fold onmessage [''xyz''] (connect demo_messenger))) \<and>
   \<not> isAuthenticated
       (fold onmessage [''E:ping'', ''E:a.result'']
          (onmessage ''not authorized'' (fold onmessage [''xyz''] (connect demo_messenger)))) \<and>
   trace
       (fold onmessage [''E:ping'', ''E:a.result'']
          (onmessage ''not authorized'' (fold onmessage [''xyz''] (connect demo_messenger)))) = []"
proof -
  let ?w = "fold onmessage [''xyz''] (connect demo_messenger)"
  have a: "\<not> isAuthenticated demo_messenger"
    by (simp add: demo_messenger_def Messenger_def)
  have b: "\<not> isAuthenticated ?w" and t: "trace ?w = []"
    by (simp_all add: demo_messenger_def Messenger_def connect_def onmessage_def)
  have c: "\<forall>d\<in>set [''E:ping'', ''E:a.result'']. d \<noteq> ''ok''"
    by simp
  show ?thesis
    using not_authorized_rejects_connect [OF a refl b refl c] t by simp
qed

section \<open>Calls, their timeouts and late responses\<close>

lemma due_timers_set:
  "h \<in> set (due_timers t w) \<longleftrightarrow>
     h < next_timer w \<and> (\<exists>tm. timers w h = Some tm \<and> due tm \<le> t)"
  by (auto simp: due_timers_def split: option.splits)

lemma due_timers_distinct: "distinct (due_timers t w)"
  by (simp add: due_timers_def)

lemma fold_fire_timer_trace_mono:
  "\<exists>post. trace (fold fire_timer hs w) = trace w @ post"
proof (induction hs arbitrary: w)
  case Nil
  then show ?case by simp
next
  case (Cons h hs)
  obtain post where "trace (fold fire_timer hs (fire_timer h w)) = trace (fire_timer h w) @ post"
    using Cons.IH by blast
  then show ?case
    by (simp add: fire_timer_trace)
qed

lemma fold_fire_timer_fires:
  assumes "h \<in> set hs" "distinct hs" "timers w h = Some t" "t_reject t = Some f"
  shows "\<exists>pre post.
           trace (fold fire_timer hs w) = trace w @ pre @ [Invoked f (timeout_error (t_id t))] @ post"
  using assms
proof (induction hs arbitrary: w)
  case Nil
  then show ?case by simp
next
  case (Cons g hs)
  show ?case
  proof (cases "g = h")
    case True
    obtain post where "trace (fold fire_timer hs (fire_timer h w)) = trace (fire_timer h w) @ post"
      using fold_fire_timer_trace_mono by blast
    then have "trace (fold fire_timer (g # hs) w) =
        trace w @ [] @ [Invoked f (timeout_error (t_id t))] @ post"
      using True Cons.prems by (simp add: fire_timer_trace)
    then show ?thesis by blast
  next
    case False
    then have "h \<in> set hs" "distinct hs" "timers (fire_timer g w) h = Some t"
      using Cons.prems by (simp_all add: fire_timer_fields)
    from Cons.IH [OF this Cons.prems(4)]
    obtain pre post where
      "trace (fold fire_timer hs (fire_timer g w)) =
         trace (fire_timer g w) @ pre @ [Invoked f (timeout_error (t_id t))] @ post"
      by blast
    moreover obtain mid where "trace (fire_timer g w) = trace w @ mid"
      by (simp add: fire_timer_trace)
    ultimately have "trace (fold fire_timer (g # hs) w) =
        trace w @ (mid @ pre) @ [Invoked f (timeout_error (t_id t))] @ post"
      by simp
    then show ?thesis by blast
  qed
qed






lemma demo_ready_fields:
  "isAuthenticated demo_ready" "sent demo_ready = []" "trace demo_ready = []"
  "RESOLVERS demo_ready = Map.empty" "REJECTORS demo_ready = Map.empty"
  "TIMEOUTS demo_ready = Map.empty" "timers demo_ready = Map.empty"
  "next_timer demo_ready = 0" "next_promise demo_ready = 0" "now demo_ready = 0"
  "uuid_count demo_ready = 0" "uuid_values demo_ready = (\<lambda>n. replicate (Suc n) CHR ''u'')"
  "JSON_parse demo_ready = demo_parse" "address demo_ready = ''0xAbC''"
  "promises demo_ready = (\<lambda>p. Pending)"
  by (simp_all add: demo_world_defs)

lemma demo_elapsed:
  "trace (elapse 12000 demo_pending) = [Invoked (Fn 2) (timeout_error ''a'')]"
  "isAuthenticated (elapse 12000 demo_pending)"
  "JSON_parse (elapse 12000 demo_pending) = demo_parse"
  "RESOLVERS (elapse 12000 demo_pending) = [''a'' \<mapsto> Fn 1]"
  "REJECTORS (elapse 12000 demo_pending) = [''a'' \<mapsto> Fn 2]"
  "TIMEOUTS (elapse 12000 demo_pending) = [''a'' \<mapsto> 0]"
  "timers (elapse 12000 demo_pending) = Map.empty"
proof -
  have "due_timers (now demo_pending + 12000) demo_pending = [0]"
    by (simp add: due_timers_def demo_pending_fields)
  then show
    "trace (elapse 12000 demo_pending) = [Invoked (Fn 2) (timeout_error ''a'')]"
    "timers (elapse 12000 demo_pending) = Map.empty"
    by (simp_all add: elapse_fields fire_timer_trace fire_timer_fields demo_pending_fields)
qed (simp_all add: elapse_fields demo_pending_fields)

text \<open>
  A call with a rejector that gets no response: when \<open>TIMEOUT\<close> (12000 ms) or more have passed,
  the rejector has been invoked with the timeout error, of code \<open>-1\<close>, and the timer is no longer
  armed. The entries of the call in the three tables are still there.
\<close>

theorem unanswered_call_times_out:
  assumes "w1 = call receiver message resolve (Some rej) w"
    and "k = js_string w (rpc_id message)"
    and "TIMEOUT \<le> d"
  shows
    "(\<exists>pre post. trace (elapse d w1) =
        trace w @ pre @
        [Invoked rej (JObj [(''message'', JStr (''Request timed out. ['' @ k @ '']'')),
                            (''code'', JNum (- 1))])] @ post) \<and>
     timers (elapse d w1) (next_timer w) = None \<and>
     RESOLVERS (elapse d w1) = RESOLVERS w1 \<and>
     REJECTORS (elapse d w1) k = Some rej \<and>
     TIMEOUTS (elapse d w1) k = Some (next_timer w)"
proof -
  let ?h = "next_timer w"
  let ?t = "\<lparr>due = now w + TIMEOUT, t_reject = Some rej, t_id = k\<rparr>"
  let ?hs = "due_timers (now w1 + d) w1"
  have armed: "timers w1 ?h = Some ?t"
    using assms(1,2) by (simp add: call_fields)
  have "?h \<in> set ?hs"
    using assms armed by (simp add: due_timers_set call_fields)
  from fold_fire_timer_fires [OF this due_timers_distinct armed]
  obtain pre post where
    "trace (fold fire_timer ?hs w1) = trace w1 @ pre @ [Invoked rej (timeout_error k)] @ post"
    by auto
  then have "trace (elapse d w1) =
      trace w @ pre @
      [Invoked rej (JObj [(''message'', JStr (''Request timed out. ['' @ k @ '']'')),
                          (''code'', JNum (- 1))])] @ post"
    using assms(1) by (simp add: elapse_fields call_fields timeout_error_def)
  moreover have "timers (elapse d w1) ?h = None"
    using \<open>?h \<in> set ?hs\<close> by (simp add: elapse_fields fold_fire_timer_timers)
  moreover have "REJECTORS (elapse d w1) k = Some rej" "TIMEOUTS (elapse d w1) k = Some ?h"
    using assms(1,2) by (simp_all add: elapse_fields call_fields)
  ultimately show ?thesis
    by (simp add: elapse_fields) blast
qed

theorem unanswered_call_times_out_witness:
  "(\<exists>pre post. trace (elapse 12000 demo_pending) =
      trace demo_ready @ pre @
      [Invoked (Fn 2) (JObj [(''message'', JStr ''Request timed out. [a]''), (''code'', JNum (- 1))])]
      @ post) \<and>
   timers (elapse 12000 demo_pending) (next_timer demo_ready) = None \<and>
   RESOLVERS (elapse 12000 demo_pending) = RESOLVERS demo_pending \<and>
   REJECTORS (elapse 12000 demo_pending) ''a'' = Some (Fn 2) \<and>
   TIMEOUTS (elapse 12000 demo_pending) ''a'' = Some (next_timer demo_ready)"
proof -
  have k: "''a'' = js_string demo_ready (rpc_id demo_request)"
    by (simp add: demo_request_def js_string_def)
  have d: "TIMEOUT \<le> 12000"
    by (simp add: TIMEOUT_def)
  show ?thesis
    using unanswered_call_times_out [OF demo_pending_def k d] by simp
qed

lemma demo_late_response:
  "trace (run [Elapse 12000] demo_pending) =
     [Invoked (Fn 2) (JObj [(''message'', JStr ''Request timed out. [a]''), (''code'', JNum (- 1))])]"
  "inner_message (run [Elapse 12000] demo_pending) ''E:a.result'' =
     Some (JObj [(''jsonrpc'', JStr ''2.0''), (''id'', JStr ''a''), (''result'', JStr ''r'')])"
  "trace (run [Elapse 12000, Message ''E:a.result''] demo_pending) =
     [Invoked (Fn 2) (JObj [(''message'', JStr ''Request timed out. [a]''), (''code'', JNum (- 1))]),
      Invoked (Fn 1) (JStr ''r'')]"
proof -
  let ?w = "elapse 12000 demo_pending"
  let ?m = "JObj [(''jsonrpc'', JStr ''2.0''), (''id'', JStr ''a''), (''result'', JStr ''r'')]"
  have p: "inner_message ?w ''E:a.result'' = Some ?m"
    using inner_message_static [of ?w demo_pending "''E:a.result''"]
    by (simp add: elapse_fields demo_replies)
  then have "onmessage ''E:a.result'' ?w = response ?m ?w"
    by (simp add: onmessage_rpc demo_elapsed truthy_opt_def js_get_def)
  then show
    "trace (run [Elapse 12000] demo_pending) =
       [Invoked (Fn 2) (JObj [(''message'', JStr ''Request timed out. [a]''), (''code'', JNum (- 1))])]"
    "inner_message (run [Elapse 12000] demo_pending) ''E:a.result'' = Some ?m"
    "trace (run [Elapse 12000, Message ''E:a.result''] demo_pending) =
       [Invoked (Fn 2) (JObj [(''message'', JStr ''Request timed out. [a]''), (''code'', JNum (- 1))]),
        Invoked (Fn 1) (JStr ''r'')]"
    using p
    by (simp_all add: run_def response_trace demo_elapsed demo_pending_fields timeout_error_def
        truthy_opt_def js_get_def hasOwnProperty_def prop_key_def js_string_def)
qed


text \<open>
  Claim C2 on the code: the call \<open>a\<close> of the example gets no response for 12000 ms, so its
  rejector \<open>Fn 2\<close> is invoked with the timeout error; the response that arrives afterwards still
  finds the resolver \<open>Fn 1\<close> in \<open>RESOLVERS\<close> and invokes it with the result.
\<close>

theorem late_response_after_timeout_resolves:
  "trace demo_pending = [] \<and>
   trace (run [Elapse 12000] demo_pending) =
     [Invoked (Fn 2) (JObj [(''message'', JStr ''Request timed out. [a]''), (''code'', JNum (- 1))])] \<and>
   trace (run [Elapse 12000, Message ''E:a.result''] demo_pending) =
     [Invoked (Fn 2) (JObj [(''message'', JStr ''Request timed out. [a]''), (''code'', JNum (- 1))]),
      Invoked (Fn 1) (JStr ''r'')]"
  using demo_late_response by (simp add: demo_pending_fields)














section \<open>The RPC helpers\<close>

text \<open>
  Claim C9, as the code has it. \<open>getOrder\<close> and \<open>getQuote\<close> throw the error, before anything is
  sent and with the state unchanged, when both or neither of \<open>makerAmount\<close> and \<open>takerAmount\<close>
  are given (truthy) and when \<open>makerToken\<close> or \<open>takerToken\<close> is missing (falsy); \<open>getMaxQuote\<close>
  throws it when \<open>makerToken\<close> or \<open>takerToken\<close> is missing, and with both tokens given it makes
  its call whatever the amounts are.
\<close>

theorem bad_arguments_throw_first:
  "(((given params ''makerAmount'' \<and> given params ''takerAmount'') \<or>
     (\<not> given params ''makerAmount'' \<and> \<not> given params ''takerAmount'') \<or>
     \<not> given params ''makerToken'' \<or> \<not> given params ''takerToken'') \<longrightarrow>
      getOrder maker params w = (Inl (Error ''bad arguments passed to getOrder''), w) \<and>
      getQuote maker params w = (Inl (Error ''bad arguments passed to getOrder''), w)) \<and>
   ((\<not> given params ''makerToken'' \<or> \<not> given params ''takerToken'') \<longrightarrow>
      getMaxQuote maker params w = (Inl (Error ''bad arguments passed to getOrder''), w)) \<and>
   (given params ''makerToken'' \<and> given params ''takerToken'' \<longrightarrow>
      fst (getMaxQuote maker params w) = Inr (next_promise w))"
  by (auto simp: getOrder_def getQuote_def getMaxQuote_def Let_def promise_call_def makeRPC_def uuid_def split: prod.splits)

theorem bad_arguments_throw_first_witness:
  "getOrder ''0xmaker''
     [(''makerAmount'', JNum 1), (''takerAmount'', JNum 2),
      (''makerToken'', JStr ''0xA''), (''takerToken'', JStr ''0xB'')] demo_ready =
     (Inl (Error ''bad arguments passed to getOrder''), demo_ready) \<and>
   getQuote ''0xmaker''
     [(''makerAmount'', JNum 1), (''takerAmount'', JNum 2),
      (''makerToken'', JStr ''0xA''), (''takerToken'', JStr ''0xB'')] demo_ready =
     (Inl (Error ''bad arguments passed to getOrder''), demo_ready) \<and>
   getMaxQuote ''0xmaker'' [(''makerToken'', JStr ''0xA'')] demo_ready =
     (Inl (Error ''bad arguments passed to getOrder''), demo_ready) \<and>
   fst (getMaxQuote ''0xmaker'' [(''makerToken'', JStr ''0xA''), (''takerToken'', JStr ''0xB'')] demo_ready)
     = Inr (next_promise demo_ready)"
  using
    bad_arguments_throw_first
      [of "[(''makerAmount'', JNum 1), (''takerAmount'', JNum 2),
            (''makerToken'', JStr ''0xA''), (''takerToken'', JStr ''0xB'')]" "''0xmaker''" demo_ready]
    bad_arguments_throw_first [of "[(''makerToken'', JStr ''0xA'')]" "''0xmaker''" demo_ready]
    bad_arguments_throw_first
      [of "[(''makerToken'', JStr ''0xA''), (''takerToken'', JStr ''0xB'')]" "''0xmaker''" demo_ready]
  by (simp add: given_def truthy_opt_def)

text \<open>
  Claim C9 as it is worded fails on \<open>getMaxQuote\<close>: with both tokens and neither amount it does
  not throw; it sends the request and the call is pending.
\<close>

theorem getMaxQuote_ignores_amounts:
  "\<not> given [(''makerToken'', JStr ''0xA''), (''takerToken'', JStr ''0xB'')] ''makerAmount'' \<and>
   \<not> given [(''makerToken'', JStr ''0xA''), (''takerToken'', JStr ''0xB'')] ''takerAmount'' \<and>
   sent demo_ready = [] \<and> TIMEOUTS demo_ready ''u'' = None \<and>
   fst (getMaxQuote ''0xmaker'' [(''makerToken'', JStr ''0xA''), (''takerToken'', JStr ''0xB'')] demo_ready)
     = Inr 0 \<and>
   sent (snd (getMaxQuote ''0xmaker'' [(''makerToken'', JStr ''0xA''), (''takerToken'', JStr ''0xB'')]
                demo_ready)) =
     [Envelope ''0xabc'' ''0xmaker''
        \<lparr>jsonrpc = ''2.0'', rpc_method = ''getMaxQuote'',
         rpc_params = JObj [(''makerToken'', JStr ''0xA''), (''takerToken'', JStr ''0xB'')],
         rpc_id = JStr ''u''\<rparr> ''uu''] \<and>
   TIMEOUTS (snd (getMaxQuote ''0xmaker'' [(''makerToken'', JStr ''0xA''), (''takerToken'', JStr ''0xB'')]
                demo_ready)) ''u'' = Some 0"
  by (simp add: getMaxQuote_def given_def truthy_opt_def Let_def makeRPC_def uuid_def promise_call_def
      call_fields demo_ready_fields field_def js_string_def toLowerCase_def)











end
